theory Spec2Isabelle
  imports Complex_Main
begin

section \<open>JavaScript values as the portals receive them\<close>

text \<open>
  The portals read every displayed field from a JSON response, so a field is \<open>null\<close>,
  \<open>undefined\<close> (absent), a boolean, a number or a string; \<open>JObj\<close> stands for an object or
  an array, identified by its reference. A number is \<open>NaN\<close>, an infinity or a finite
  double, written \<open>Fin q\<close> with its value \<open>q\<close>; the sign of zero is not modelled. Strings
  are lists of characters with codes below 256.
\<close>

datatype jsnum = NaN | Fin rat | PosInf | NegInf

datatype jsval = JNull | JUndefined | JBool bool | JNum jsnum | JStr string | JObj nat

text \<open>\<open>a === b\<close> on the values above: equal values of the same type, and \<open>NaN\<close> equals nothing.\<close>

definition strict_eq :: "jsval \<Rightarrow> jsval \<Rightarrow> bool" where
  "strict_eq a b = (a = b \<and> a \<noteq> JNum NaN)"

text \<open>The number literal \<open>k\<close> of the source, for an integer \<open>k\<close>.\<close>

definition code :: "int \<Rightarrow> jsval" where
  "code k = JNum (Fin (of_int k))"

section \<open>Label helpers\<close>

text \<open>
  \<open>obesityLabel\<close>, \<open>liverLabel\<close>, \<open>hypertensionLabel\<close> and \<open>diabetesLabel\<close> are declared
  with the same bodies in the home component, the patient portal, the receptionist portal
  and the doctor portal; one definition stands for all four copies.
\<close>

definition obesityLabel :: "jsval \<Rightarrow> string" where
  "obesityLabel p =
     (if strict_eq p (code (- 1)) then ''Insufficient Data''
      else if strict_eq p (code 0) then ''Normal weight''
      else if strict_eq p (code 1) then ''Obese''
      else if strict_eq p (code 2) then ''Overweight''
      else if strict_eq p (code 3) then ''Underweight''
      else ''Unknown'')"

definition liverLabel :: "jsval \<Rightarrow> string" where
  "liverLabel p =
     (if strict_eq p (code (- 1)) then ''Insufficient Data''
      else if strict_eq p (code 1) then ''Liver Disease Detected''
      else if strict_eq p (code 0) then ''No Liver Disease''
      else ''Unknown'')"

definition hypertensionLabel :: "jsval \<Rightarrow> string" where
  "hypertensionLabel p =
     (if strict_eq p (code (- 1)) then ''Insufficient Data''
      else if strict_eq p (code 1) then ''High Cardiovascular Risk''
      else if strict_eq p (code 0) then ''Low Cardiovascular Risk''
      else ''Unknown'')"

definition diabetesLabel :: "jsval \<Rightarrow> string" where
  "diabetesLabel p =
     (if strict_eq p (code (- 1)) then ''Insufficient Data''
      else if strict_eq p (code 1) then ''Diabetes Detected''
      else if strict_eq p (code 0) then ''No Diabetes''
      else ''Unknown'')"

section \<open>Display helpers of the history views\<close>

subsection \<open>Doubles\<close>

text \<open>
  \<open>to_double q\<close> is the double nearest to the rational \<open>q\<close>, a tie going to the even
  significand: 53 significant bits, exponents from -1022 (below that the spacing stays
  \<open>2^-1074\<close>) and an infinity when the rounded value reaches \<open>2^1024\<close>. It is what a
  decimal literal of a response denotes and what an arithmetic operation returns for its
  exact result.
\<close>

definition pow2 :: "int \<Rightarrow> rat" where
  "pow2 e = (if 0 \<le> e then 2 ^ nat e else 1 / 2 ^ nat (- e))"

function bit_length :: "int \<Rightarrow> int" where
  "bit_length n = (if n \<le> 0 then 0 else 1 + bit_length (n div 2))"
  by pat_completeness auto
termination
  by (relation "measure nat") auto

declare bit_length.simps [simp del]

text \<open>For \<open>a > 0\<close>, the exponent \<open>e\<close> with \<open>2^e \<le> a < 2^(e+1)\<close>.\<close>

definition floor_log2 :: "rat \<Rightarrow> int" where
  "floor_log2 a =
     (let (p, q) = quotient_of a;
          d = bit_length p - bit_length q
      in if pow2 d \<le> a then d else d - 1)"

definition round_half_even :: "rat \<Rightarrow> int" where
  "round_half_even x =
     (let f = \<lfloor>x\<rfloor>; r = x - of_int f
      in if r < 1 / 2 then f else if 1 / 2 < r then f + 1 else if even f then f else f + 1)"

definition to_double :: "rat \<Rightarrow> jsnum" where
  "to_double q =
     (if q = 0 then Fin 0
      else
        let a = \<bar>q\<bar>;
            e = max (floor_log2 a) (- 1022);
            m = round_half_even (a / pow2 (e - 52))
        in if 1024 \<le> e + (if m = 2 ^ 53 then 1 else 0)
           then (if 0 < q then PosInf else NegInf)
           else Fin ((if 0 < q then 1 else - 1) * of_int m * pow2 (e - 52)))"

text \<open>
  The double a number of a response stands for: a finite number that is written with a
  value that is no double (the literal 0.285) is the double nearest to it.
\<close>

fun dbl :: "jsnum \<Rightarrow> jsnum" where
  "dbl (Fin q) = to_double q"
| "dbl n = n"

subsection \<open>Number operations used by the helpers\<close>

text \<open>
  \<open>isNaN\<close> on a number, \<open>a > b\<close> and \<open>a * b\<close> on doubles, as ECMAScript defines them: the
  product of two finite doubles is the double nearest to their exact product.
\<close>

fun isNaN :: "jsnum \<Rightarrow> bool" where
  "isNaN NaN = True"
| "isNaN _ = False"

fun js_gt :: "jsnum \<Rightarrow> jsnum \<Rightarrow> bool" where
  "js_gt NaN _ = False"
| "js_gt _ NaN = False"
| "js_gt (Fin a) (Fin b) = (b < a)"
| "js_gt (Fin a) NegInf = True"
| "js_gt (Fin a) PosInf = False"
| "js_gt PosInf PosInf = False"
| "js_gt PosInf _ = True"
| "js_gt NegInf _ = False"

fun js_mul :: "jsnum \<Rightarrow> jsnum \<Rightarrow> jsnum" where
  "js_mul NaN _ = NaN"
| "js_mul _ NaN = NaN"
| "js_mul (Fin a) (Fin b) = to_double (a * b)"
| "js_mul (Fin a) PosInf = (if a = 0 then NaN else if 0 < a then PosInf else NegInf)"
| "js_mul (Fin a) NegInf = (if a = 0 then NaN else if 0 < a then NegInf else PosInf)"
| "js_mul PosInf (Fin b) = (if b = 0 then NaN else if 0 < b then PosInf else NegInf)"
| "js_mul NegInf (Fin b) = (if b = 0 then NaN else if 0 < b then NegInf else PosInf)"
| "js_mul PosInf PosInf = PosInf"
| "js_mul PosInf NegInf = NegInf"
| "js_mul NegInf PosInf = NegInf"
| "js_mul NegInf NegInf = PosInf"

text \<open>
  \<open>Math.round\<close>: the nearest integer, a tie going to the larger one; \<open>NaN\<close> and the
  infinities are returned as they are. Its result is integral, which the type records.
\<close>

datatype rounded = RNaN | RInt int | RPosInf | RNegInf

fun Math_round :: "jsnum \<Rightarrow> rounded" where
  "Math_round NaN = RNaN"
| "Math_round (Fin q) = RInt (round q)"
| "Math_round PosInf = RPosInf"
| "Math_round NegInf = RNegInf"

text \<open>
  An integral number inside a template literal. Up to \<open>2^53\<close> in absolute value every
  integer is a double and ECMAScript writes all its decimal digits, with a leading minus
  sign; what it writes for a larger one (the shortest digits that identify the double,
  padded with zeros, and exponent notation from \<open>10^21\<close> on) is the parameter \<open>big\<close>.
\<close>

definition digit_char :: "nat \<Rightarrow> char" where
  "digit_char d = char_of (48 + d)"

fun nat_to_string :: "nat \<Rightarrow> string" where
  "nat_to_string n =
     (if n < 10 then [digit_char n] else nat_to_string (n div 10) @ [digit_char (n mod 10)])"

declare nat_to_string.simps [simp del]

definition int_to_string :: "int \<Rightarrow> string" where
  "int_to_string i = (if i < 0 then ''-'' @ nat_to_string (nat (- i)) else nat_to_string (nat i))"

definition integer_to_string :: "(int \<Rightarrow> string) \<Rightarrow> int \<Rightarrow> string" where
  "integer_to_string big i = (if \<bar>i\<bar> \<le> 2 ^ 53 then int_to_string i else big i)"

fun rounded_to_string :: "(int \<Rightarrow> string) \<Rightarrow> rounded \<Rightarrow> string" where
  "rounded_to_string big RNaN = ''NaN''"
| "rounded_to_string big (RInt i) = integer_to_string big i"
| "rounded_to_string big RPosInf = ''Infinity''"
| "rounded_to_string big RNegInf = ''-Infinity''"

text \<open>The template literal \<open>`${Math.round(x)}%`\<close>.\<close>

definition percent :: "(int \<Rightarrow> string) \<Rightarrow> jsnum \<Rightarrow> string" where
  "percent big x = rounded_to_string big (Math_round x) @ ''%''"

text \<open>
  \<open>ToNumber\<close>, the coercion that \<open>isNaN(v)\<close>, \<open>v > 1\<close>, \<open>v * 100\<close> and \<open>Math.round(v)\<close>
  apply to a value that is not a number. What a string or an object converts to is the
  parameter \<open>cv\<close>.
\<close>

fun ToNumber :: "(jsval \<Rightarrow> jsnum) \<Rightarrow> jsval \<Rightarrow> jsnum" where
  "ToNumber cv JUndefined = NaN"
| "ToNumber cv JNull = Fin 0"
| "ToNumber cv (JBool b) = Fin (if b then 1 else 0)"
| "ToNumber cv (JNum n) = n"
| "ToNumber cv v = cv v"

text \<open>The value of a string of decimal digits, to say what \<open>nat_to_string\<close> writes.\<close>

definition decimal_value :: "string \<Rightarrow> nat" where
  "decimal_value s = foldl (\<lambda>a c. 10 * a + (of_char c - 48)) 0 s"

subsection \<open>The patient portal's helpers\<close>


text \<open>
  \<^verbatim>\<open>const safePercent = (v) => {
    if (v === null || v === undefined) return "No data";
    if (typeof v !== "number" || isNaN(v)) return "No data";
    if (v > 1) { return `${Math.round(v)}%`; }
    return `${Math.round(v * 100)}%`;
  };\<close>
\<close>

text \<open>The number is read as the double it stands for (\<open>dbl\<close>) before the function works on it.\<close>

definition safePercent :: "(int \<Rightarrow> string) \<Rightarrow> jsval \<Rightarrow> string" where
  "safePercent big v =
     (if strict_eq v JNull \<or> strict_eq v JUndefined then ''No data''
      else case v of
        JNum n \<Rightarrow>
          (let d = dbl n in
           if isNaN d then ''No data''
           else if js_gt d (Fin 1) then percent big d
           else percent big (js_mul d (Fin 100)))
      | _ \<Rightarrow> ''No data'')"

subsection \<open>The doctor portal's helpers\<close>

text \<open>The placeholder of the doctor portal is an em dash (U+2014), three bytes in the source file.\<close>

definition dash :: string where
  "dash = [CHR 0xE2, CHR 0x80, CHR 0x94]"


definition safePercent_doctor :: "(int \<Rightarrow> string) \<Rightarrow> (jsval \<Rightarrow> jsnum) \<Rightarrow> jsval \<Rightarrow> string" where
  "safePercent_doctor big cv v =
     (let d = dbl (ToNumber cv v) in
      if strict_eq v JNull \<or> strict_eq v JUndefined \<or> isNaN d then dash
      else if js_gt d (Fin 1) then percent big d
      else percent big (js_mul d (Fin 100)))"




section \<open>Gender labels\<close>

text \<open>
  \<open>toLowerCase\<close> on the ASCII letters, \<open>trim\<close> on the white space below code 256 (tab,
  line feed, vertical tab, form feed, carriage return, space, no-break space) and
  \<open>startsWith\<close>.
\<close>

definition toLowerCase_char :: "char \<Rightarrow> char" where
  "toLowerCase_char c =
     (let n = (of_char c :: nat) in if 65 \<le> n \<and> n \<le> 90 then char_of (n + 32) else c)"

definition toLowerCase :: "string \<Rightarrow> string" where
  "toLowerCase s = map toLowerCase_char s"

definition is_space :: "char \<Rightarrow> bool" where
  "is_space c = ((of_char c :: nat) \<in> {9, 10, 11, 12, 13, 32, 160})"

definition trim :: "string \<Rightarrow> string" where
  "trim s = rev (dropWhile is_space (rev (dropWhile is_space s)))"

definition startsWith :: "string \<Rightarrow> string \<Rightarrow> bool" where
  "startsWith s p = (take (length p) s = p)"

text \<open>
  The receptionist portal:
  \<^verbatim>\<open>const formatGender = (g) => {
    if (g === null || g === undefined) return "N/A";
    if (typeof g === "string") {
      if (g.toLowerCase().startsWith("m")) return "Male";
      if (g.toLowerCase().startsWith("f")) return "Female";
      return g;
    }
    if (g === 0) return "Male";
    if (g === 1) return "Female";
    return "Other";
  };\<close>
\<close>

definition formatGender :: "jsval \<Rightarrow> string" where
  "formatGender g =
     (if strict_eq g JNull \<or> strict_eq g JUndefined then ''N/A''
      else case g of
        JStr s \<Rightarrow>
          (if startsWith (toLowerCase s) ''m'' then ''Male''
           else if startsWith (toLowerCase s) ''f'' then ''Female''
           else s)
      | _ \<Rightarrow>
          (if strict_eq g (code 0) then ''Male''
           else if strict_eq g (code 1) then ''Female''
           else ''Other''))"

text \<open>
  The doctor portal:
  \<^verbatim>\<open>const formatGender = (g) => {
    if (g === null || g === undefined) return "N/A";
    if (g === "0") return "Male";
    if (g === "1") return "Female";
    if (typeof g === "number") {
      if (g === 0) return "Male";
      if (g === 1) return "Female";
    }
    if (typeof g === "string") {
      const v = g.toLowerCase().trim();
      if (v.startsWith("m")) return "Male";
      if (v.startsWith("f")) return "Female";
      return "Other";
    }
    return "Other";
  };\<close>
\<close>

definition formatGender_doctor :: "jsval \<Rightarrow> string" where
  "formatGender_doctor g =
     (if strict_eq g JNull \<or> strict_eq g JUndefined then ''N/A''
      else if strict_eq g (JStr ''0'') then ''Male''
      else if strict_eq g (JStr ''1'') then ''Female''
      else if (case g of JNum _ \<Rightarrow> strict_eq g (code 0) | _ \<Rightarrow> False) then ''Male''
      else if (case g of JNum _ \<Rightarrow> strict_eq g (code 1) | _ \<Rightarrow> False) then ''Female''
      else case g of
        JStr s \<Rightarrow>
          (let v = trim (toLowerCase s) in
           if startsWith v ''m'' then ''Male''
           else if startsWith v ''f'' then ''Female''
           else ''Other'')
      | _ \<Rightarrow> ''Other'')"


section \<open>Patient and vitals fields in the history views\<close>















section \<open>The disease prediction grid of the result views\<close>

text \<open>
  One disease slot of the result envelope, with the four fields the upload endpoint
  returns. The record is polymorphic in the types of its fields: the portals read JSON
  values, the orchestrator below produces typed ones.
\<close>

record ('p, 'n, 'f) envelope =
  prediction :: 'p
  confidence :: 'n
  future_risk :: 'n
  features_used :: 'f

type_synonym slot = "(jsval, jsval, (string \<times> jsval) list) envelope"

text \<open>\<open>result.diseases\<close>: a slot that is missing (or \<open>null\<close>) is \<open>None\<close>.\<close>

record diseases =
  obesity :: "slot option"
  diabetes :: "slot option"
  hypertension :: "slot option"
  liver :: "slot option"

record card =
  title :: string
  label :: string
  card_confidence :: jsval
  card_risk :: jsval

datatype js_error = TypeError

text \<open>
  One entry of the grid, the same in the home component and in the receptionist portal:
  \<^verbatim>\<open>{result.diseases.obesity?.prediction !== -1 && (
    <DiseaseCard title="Obesity Screening"
      label={obesityLabel(result.diseases.obesity.prediction)}
      confidence={result.diseases.obesity.confidence}
      risk={result.diseases.obesity.future_risk} ... />)}\<close>
  For a missing slot the guard compares \<open>undefined\<close> with -1 and holds, and reading
  \<open>.prediction\<close> of the missing slot then throws.
\<close>

definition grid_entry :: "string \<Rightarrow> (jsval \<Rightarrow> string) \<Rightarrow> slot option \<Rightarrow> js_error + card list" where
  "grid_entry t lab so =
     (case so of
        None \<Rightarrow> Inl TypeError
      | Some e \<Rightarrow>
          (if \<not> strict_eq (prediction e) (code (- 1))
           then Inr [\<lparr>title = t, label = lab (prediction e),
                      card_confidence = confidence e, card_risk = future_risk e\<rparr>]
           else Inr []))"

definition then_entry :: "js_error + card list \<Rightarrow> js_error + card list \<Rightarrow> js_error + card list" where
  "then_entry a b =
     (case a of Inl err \<Rightarrow> Inl err
      | Inr xs \<Rightarrow> (case b of Inl err \<Rightarrow> Inl err | Inr ys \<Rightarrow> Inr (xs @ ys)))"

text \<open>The grid lists obesity, diabetes, liver and hypertension, in this order.\<close>

definition DiseasePredictionGrid :: "diseases \<Rightarrow> js_error + card list" where
  "DiseasePredictionGrid ds =
     then_entry (grid_entry ''Obesity Screening'' obesityLabel (obesity ds))
       (then_entry (grid_entry ''Diabetes Analysis'' diabetesLabel (diabetes ds))
         (then_entry (grid_entry ''Liver Pathology'' liverLabel (liver ds))
           (grid_entry ''Hypertension / Cardio'' hypertensionLabel (hypertension ds))))"

text \<open>The envelope the spec gives for a disease with insufficient data, as JSON values.\<close>

definition insufficient_slot :: slot where
  "insufficient_slot =
     \<lparr>prediction = code (- 1), confidence = JNull, future_risk = JNull, features_used = []\<rparr>"

section \<open>Upload errors in the receptionist portal\<close>






text \<open>The error kinds of the pipeline.\<close>

datatype error_kind =
  InvalidDocument | MissingRequiredField | DuplicatePrescription
  | OcrUnavailable | ModelUnavailable | AuthExpired


section \<open>Paginated history\<close>

text \<open>
  The pagination fields and the history response, which adds \<open>data\<close> (\<open>None\<close> when the
  response has no such field).
\<close>

record pagination =
  page :: nat
  limit :: nat
  total_pages :: nat
  total_records :: nat
  has_next :: bool
  has_prev :: bool

record 'a history_response = pagination +
  data :: "'a list option"

text \<open>
  Modelled from the spec: the history endpoint is not among the sources. It reads the
  committed records of the patient, newest first (the list \<open>records\<close>), and returns the
  page \<open>p\<close> of \<open>l\<close> records each, with the number of pages, the number of records and
  whether a next and a previous page exist. The spec does not say what a page or a limit
  below 1 gives; the model returns \<open>None\<close> there.
\<close>

definition paginate :: "'a list \<Rightarrow> nat \<Rightarrow> nat \<Rightarrow> 'a history_response option" where
  "paginate records p l =
     (if p < 1 \<or> l < 1 then None
      else
        let n = length records; tp = (n + l - 1) div l
        in Some \<lparr>page = p, limit = l, total_pages = tp, total_records = n,
                 has_next = (p < tp), has_prev = (1 < p),
                 data = Some (take l (drop ((p - 1) * l) records))\<rparr>)"

text \<open>
  The state the portals keep: the history (\<open>None\<close> is \<open>undefined\<close>), the pagination and
  the \<open>loading\<close> flag; the doctor portal adds \<open>searched\<close>.
\<close>

record 'a history_state =
  history :: "'a list option"
  pagination :: pagination
  history_loading :: bool

record 'a doctor_state = "'a history_state" +
  searched :: bool

text \<open>
  The patient portal; \<open>server p l\<close> is the answer to the request, \<open>None\<close> when it fails.
  \<^verbatim>\<open>const fetchHistory = async (token, page = 1, limit = 10) => {
    setLoading(true);
    try {
      const res = await axios.get(`${API}/history`, { ..., params: { page, limit } });
      setHistory(res.data.data || []);
      setPagination({ page: res.data.page, limit: res.data.limit,
        total_pages: res.data.total_pages, total_records: res.data.total_records,
        has_next: res.data.has_next, has_prev: res.data.has_prev });
    } catch (err) { console.error(...); setHistory([]); }
    finally { setLoading(false); }
  };\<close>
\<close>

definition fetchHistory ::
  "(nat \<Rightarrow> nat \<Rightarrow> 'a history_response option) \<Rightarrow> nat \<Rightarrow> nat \<Rightarrow>
   ('a, 'z) history_state_scheme \<Rightarrow> ('a, 'z) history_state_scheme" where
  "fetchHistory server p l st =
     (case server p l of
        Some r \<Rightarrow>
          st\<lparr>history := Some (case data r of Some xs \<Rightarrow> xs | None \<Rightarrow> []),
             pagination := \<lparr>page = page r, limit = limit r, total_pages = total_pages r,
                             total_records = total_records r, has_next = has_next r,
                             has_prev = has_prev r\<rparr>,
             history_loading := False\<rparr>
      | None \<Rightarrow> st\<lparr>history := Some [], history_loading := False\<rparr>)"

text \<open>
  The doctor portal asks for the page and the limit of its own pagination state:
  \<^verbatim>\<open>const fetchPatientHistory = async () => {
    if (!searchId) return;
    setSearched(true); setLoading(true);
    try {
      const res = await axios.get(`${API}/patients/history`, { ...,
        params: { q: searchId, page: pagination.page, limit: pagination.limit } });
      setHistory(res.data.data);
      setPagination({ page: res.data.page, ..., has_prev: res.data.has_prev });
    } catch { alert("Records retrieval failed."); setHistory([]); }
    finally { setLoading(false); }
  };\<close>
\<close>

definition fetchPatientHistory ::
  "(string \<Rightarrow> nat \<Rightarrow> nat \<Rightarrow> 'a history_response option) \<Rightarrow> string \<Rightarrow>
   'a doctor_state \<Rightarrow> 'a doctor_state" where
  "fetchPatientHistory server searchId st =
     (if searchId = [] then st
      else
        case server searchId (page (pagination st)) (limit (pagination st)) of
          Some r \<Rightarrow>
            st\<lparr>searched := True, history := data r,
               pagination := \<lparr>page = page r, limit = limit r, total_pages = total_pages r,
                               total_records = total_records r, has_next = has_next r,
                               has_prev = has_prev r\<rparr>,
               history_loading := False\<rparr>
        | None \<Rightarrow> st\<lparr>searched := True, history := Some [], history_loading := False\<rparr>)"

section \<open>The disease prediction orchestrator\<close>

text \<open>
  The extracted clinical record as the orchestrator reads it: a feature name gives the
  value of the feature, \<open>None\<close> when it is \<open>null\<close>.
\<close>

type_synonym clinical_record = "string \<Rightarrow> rat option"

datatype disease = Obesity | Diabetes | Hypertension | Liver

type_synonym prediction_envelope = "(int, rat option, (string \<times> rat) list) envelope"

text \<open>
  Modelled from the spec: the orchestrator is not among the sources. For each disease it
  projects the record onto the disease's required features (the static list \<open>req d\<close>),
  emits the insufficient envelope when one of them is \<open>null\<close>, and otherwise calls the
  disease's scoring provider \<open>score d\<close>, brings confidence and future risk to a
  probability and attaches the features used. A provider that fails marks its own disease
  -1 and leaves the others alone.
\<close>

definition insufficient :: prediction_envelope where
  "insufficient = \<lparr>prediction = - 1, confidence = None, future_risk = None, features_used = []\<rparr>"

definition project :: "clinical_record \<Rightarrow> string list \<Rightarrow> (string \<times> rat option) list" where
  "project rec fs = map (\<lambda>f. (f, rec f)) fs"

fun all_present :: "(string \<times> rat option) list \<Rightarrow> (string \<times> rat) list option" where
  "all_present [] = Some []"
| "all_present ((f, None) # xs) = None"
| "all_present ((f, Some v) # xs) = map_option ((#) (f, v)) (all_present xs)"

definition probability :: "rat \<Rightarrow> rat" where
  "probability x = (if 1 < x then x / 100 else x)"

definition predict_disease ::
  "(disease \<Rightarrow> string list) \<Rightarrow> (disease \<Rightarrow> (string \<times> rat) list \<Rightarrow> error_kind + int \<times> rat \<times> rat) \<Rightarrow>
   clinical_record \<Rightarrow> disease \<Rightarrow> prediction_envelope" where
  "predict_disease req score rec d =
     (case all_present (project rec (req d)) of
        None \<Rightarrow> insufficient
      | Some fv \<Rightarrow>
          (case score d fv of
             Inl err \<Rightarrow> insufficient
           | Inr (p, c, r) \<Rightarrow>
               \<lparr>prediction = p, confidence = Some (probability c),
                future_risk = Some (probability r), features_used = fv\<rparr>))"

definition orchestrate ::
  "(disease \<Rightarrow> string list) \<Rightarrow> (disease \<Rightarrow> (string \<times> rat) list \<Rightarrow> error_kind + int \<times> rat \<times> rat) \<Rightarrow>
   clinical_record \<Rightarrow> (disease \<times> prediction_envelope) list" where
  "orchestrate req score rec =
     map (\<lambda>d. (d, predict_disease req score rec d)) [Obesity, Diabetes, Hypertension, Liver]"

section \<open>The derived body mass index\<close>

text \<open>
  Modelled from the spec: the feature extractor is not among the sources. The body mass
  index is taken from the document when it is stated there; otherwise it is computed from
  height (in centimetres) and weight (in kilograms) when both are present, as weight over
  the square of the height in metres, rounded to one decimal place. The arithmetic is
  exact; the spec does not say what a height that is not positive gives, and the model
  computes nothing there.
\<close>

definition round1 :: "rat \<Rightarrow> rat" where
  "round1 x = of_int (round (x * 10)) / 10"

definition derive_bmi :: "clinical_record \<Rightarrow> rat option" where
  "derive_bmi rec =
     (case rec ''bmi'' of
        Some b \<Rightarrow> Some b
      | None \<Rightarrow>
          (case (rec ''height_cm'', rec ''weight_kg'') of
             (Some h, Some w) \<Rightarrow> if 0 < h then Some (round1 (w / (h / 100)\<^sup>2)) else None
           | _ \<Rightarrow> None))"

section \<open>Properties of the label helpers\<close>

lemma strict_eq_code [simp]: "strict_eq v (code k) \<longleftrightarrow> v = code k"
  by (auto simp: strict_eq_def code_def)

lemma code_inject [simp]: "code j = code k \<longleftrightarrow> j = k"
  by (simp add: code_def)

text \<open>
  C4. The label functions realise the fixed category codes: obesity 0 normal weight, 1 obese,
  2 overweight, 3 underweight; diabetes, liver and hypertension 0 negative or low risk,
  1 positive or high risk; and each of the four answers "Insufficient Data" on the code -1
  and on no other value.
\<close>

theorem label_codes:
  "obesityLabel (code 0) = ''Normal weight'' \<and> obesityLabel (code 1) = ''Obese'' \<and>
   obesityLabel (code 2) = ''Overweight'' \<and> obesityLabel (code 3) = ''Underweight'' \<and>
   diabetesLabel (code 0) = ''No Diabetes'' \<and> diabetesLabel (code 1) = ''Diabetes Detected'' \<and>
   liverLabel (code 0) = ''No Liver Disease'' \<and> liverLabel (code 1) = ''Liver Disease Detected'' \<and>
   hypertensionLabel (code 0) = ''Low Cardiovascular Risk'' \<and>
   hypertensionLabel (code 1) = ''High Cardiovascular Risk'' \<and>
   (obesityLabel v = ''Insufficient Data'' \<longleftrightarrow> v = code (- 1)) \<and>
   (diabetesLabel v = ''Insufficient Data'' \<longleftrightarrow> v = code (- 1)) \<and>
   (liverLabel v = ''Insufficient Data'' \<longleftrightarrow> v = code (- 1)) \<and>
   (hypertensionLabel v = ''Insufficient Data'' \<longleftrightarrow> v = code (- 1))"
  by (simp add: obesityLabel_def diabetesLabel_def liverLabel_def hypertensionLabel_def)

theorem label_codes_witness:
  "obesityLabel (code 2) = ''Overweight'' \<and>
   obesityLabel (code 7) \<noteq> ''Insufficient Data'' \<and>
   liverLabel (JStr ''-1'') \<noteq> ''Insufficient Data'' \<and>
   hypertensionLabel (code (- 1)) = ''Insufficient Data''"
  using label_codes [of "code 7"] label_codes [of "JStr ''-1''"] label_codes [of "code (- 1)"]
  by (simp add: code_def)

section \<open>Properties of the display helpers\<close>

lemma strict_eq_prim [simp]:
  "strict_eq v JNull \<longleftrightarrow> v = JNull" "strict_eq v JUndefined \<longleftrightarrow> v = JUndefined"
  by (auto simp: strict_eq_def)

lemma decimal_value_nat_to_string: "decimal_value (nat_to_string n) = n"
proof (induction n rule: nat_to_string.induct)
  case (1 n)
  show ?case
  proof (cases "n < 10")
    case True
    then show ?thesis
      by (subst nat_to_string.simps) (simp add: decimal_value_def digit_char_def)
  next
    case False
    then have "decimal_value (nat_to_string (n div 10)) = n div 10"
      using 1 by simp
    then show ?thesis
      using False
      by (subst nat_to_string.simps) (simp add: decimal_value_def digit_char_def)
  qed
qed

lemma double_examples:
  "to_double (15 / 1000) = Fin (1080863910568919 / 72057594037927936)"
  "to_double (1080863910568919 / 72057594037927936 * 100) = Fin (3 / 2)"
  "to_double (285 / 1000) = Fin (5134103575202365 / 18014398509481984)"
  "to_double (5134103575202365 / 18014398509481984 * 100) = Fin (8022036836253695 / 281474976710656)"
  "to_double (876 / 10) = Fin (3082150994981683 / 35184372088832)"
  "to_double 0 = Fin 0" "to_double (0 * 100) = Fin 0"
  "to_double 1 = Fin 1" "to_double (1 * 100) = Fin 100"
  by code_simp+

lemma string_examples:
  "integer_to_string (\<lambda>_. []) \<lfloor>3 / 2 + 1 / 2 :: rat\<rfloor> = ''2''"
  "integer_to_string (\<lambda>_. []) \<lfloor>8022036836253695 / 281474976710656 + 1 / 2 :: rat\<rfloor> = ''28''"
  "integer_to_string (\<lambda>_. []) \<lfloor>3082150994981683 / 35184372088832 + 1 / 2 :: rat\<rfloor> = ''88''"
  "integer_to_string (\<lambda>_. []) \<lfloor>0 + 1 / 2 :: rat\<rfloor> = ''0''"
  "integer_to_string (\<lambda>_. []) \<lfloor>100 + 1 / 2 :: rat\<rfloor> = ''100''"
  by code_simp+

text \<open>
  C3. For a number \<open>v\<close>, \<open>safePercent\<close> (in the patient portal and in the doctor portal)
  renders the integer nearest to the double \<open>v * 100\<close> (a tie going up), followed by a
  percent sign, when \<open>v <= 1\<close>, zero included, and the integer nearest to \<open>v\<close>, followed by
  a percent sign, when \<open>v > 1\<close>. Here \<open>d\<close> is the double the number stands for and \<open>p\<close> the
  double nearest to the exact product; a product or a number beyond the doubles is rendered
  as the infinity it is.
\<close>

theorem safePercent_scaling:
  "(to_double q = Fin d \<and> 1 < d \<longrightarrow>
      safePercent big (JNum (Fin q)) = integer_to_string big \<lfloor>d + 1 / 2\<rfloor> @ ''%'' \<and>
      safePercent_doctor big cv (JNum (Fin q)) = integer_to_string big \<lfloor>d + 1 / 2\<rfloor> @ ''%'') \<and>
   (to_double q = Fin d \<and> d \<le> 1 \<and> to_double (d * 100) = Fin p \<longrightarrow>
      safePercent big (JNum (Fin q)) = integer_to_string big \<lfloor>p + 1 / 2\<rfloor> @ ''%'' \<and>
      safePercent_doctor big cv (JNum (Fin q)) = integer_to_string big \<lfloor>p + 1 / 2\<rfloor> @ ''%'') \<and>
   (to_double q = Fin d \<and> d \<le> 1 \<and> to_double (d * 100) = NegInf \<longrightarrow>
      safePercent big (JNum (Fin q)) = ''-Infinity%'' \<and>
      safePercent_doctor big cv (JNum (Fin q)) = ''-Infinity%'') \<and>
   (to_double q = PosInf \<longrightarrow>
      safePercent big (JNum (Fin q)) = ''Infinity%'' \<and>
      safePercent_doctor big cv (JNum (Fin q)) = ''Infinity%'') \<and>
   (to_double q = NegInf \<longrightarrow>
      safePercent big (JNum (Fin q)) = ''-Infinity%'' \<and>
      safePercent_doctor big cv (JNum (Fin q)) = ''-Infinity%'') \<and>
   safePercent big (JNum PosInf) = ''Infinity%'' \<and>
   safePercent_doctor big cv (JNum PosInf) = ''Infinity%'' \<and>
   safePercent big (JNum NegInf) = ''-Infinity%'' \<and>
   safePercent_doctor big cv (JNum NegInf) = ''-Infinity%'' \<and>
   (\<bar>i\<bar> \<le> 2 ^ 53 \<longrightarrow>
      integer_to_string big i = (if i < 0 then ''-'' else []) @ nat_to_string (nat \<bar>i\<bar>) \<and>
      decimal_value (nat_to_string (nat \<bar>i\<bar>)) = nat \<bar>i\<bar>)"
  by (auto simp: safePercent_def safePercent_doctor_def percent_def round_def Let_def
      integer_to_string_def int_to_string_def decimal_value_nat_to_string)

theorem safePercent_scaling_witness:
  "safePercent (\<lambda>_. []) (JNum (Fin (15 / 1000))) = ''2%'' \<and>
   safePercent_doctor (\<lambda>_. []) (\<lambda>_. NaN) (JNum (Fin (15 / 1000))) = ''2%'' \<and>
   safePercent (\<lambda>_. []) (JNum (Fin (285 / 1000))) = ''28%'' \<and>
   safePercent_doctor (\<lambda>_. []) (\<lambda>_. NaN) (JNum (Fin (285 / 1000))) = ''28%'' \<and>
   safePercent (\<lambda>_. []) (JNum (Fin (876 / 10))) = ''88%'' \<and>
   safePercent_doctor (\<lambda>_. []) (\<lambda>_. NaN) (JNum (Fin (876 / 10))) = ''88%'' \<and>
   safePercent (\<lambda>_. []) (JNum (Fin 0)) = ''0%'' \<and>
   safePercent (\<lambda>_. []) (JNum (Fin 1)) = ''100%''"
  using
    safePercent_scaling [of "15 / 1000" "1080863910568919 / 72057594037927936" "\<lambda>_. []"
      "\<lambda>_. NaN" "3 / 2" 0]
    safePercent_scaling [of "285 / 1000" "5134103575202365 / 18014398509481984" "\<lambda>_. []"
      "\<lambda>_. NaN" "8022036836253695 / 281474976710656" 0]
    safePercent_scaling [of "876 / 10" "3082150994981683 / 35184372088832" "\<lambda>_. []" "\<lambda>_. NaN" 0 0]
    safePercent_scaling [of 0 0 "\<lambda>_. []" "\<lambda>_. NaN" 0 0]
    safePercent_scaling [of 1 1 "\<lambda>_. []" "\<lambda>_. NaN" 100 0]
    double_examples string_examples
  by simp





section \<open>Properties of the gender labels\<close>

lemma trim_lower_digits:
  "trim (toLowerCase ''0'') = ''0''" "trim (toLowerCase ''1'') = ''1''"
  by code_simp+

lemma gender_examples:
  "startsWith (toLowerCase ''Male'') ''m''" "startsWith (toLowerCase ''FEMALE'') ''f''"
  "\<not> startsWith (toLowerCase ''xyz'') ''m''" "\<not> startsWith (toLowerCase ''xyz'') ''f''"
  "startsWith (trim (toLowerCase '' male'')) ''m''"
  "\<not> startsWith (trim (toLowerCase ''xyz'')) ''m''" "\<not> startsWith (trim (toLowerCase ''xyz'')) ''f''"
  by code_simp+

text \<open>
  C5, as stated, fails on both \<open>formatGender\<close> functions: the receptionist portal returns a
  string that starts with neither letter unchanged instead of "Other", the doctor portal
  trims the string before it looks at the first letter, and both show an absent value as
  "N/A".
\<close>

theorem formatGender_counterexample:
  "formatGender (JStr ''xyz'') = ''xyz'' \<and> formatGender_doctor (JStr '' male'') = ''Male'' \<and>
   formatGender JUndefined = ''N/A'' \<and> formatGender_doctor JUndefined = ''N/A''"
  by code_simp

text \<open>
  C5, amended. Both functions map \<open>null\<close> and \<open>undefined\<close> to "N/A", the number 0 to "Male"
  and the number 1 to "Female". The receptionist portal maps a string whose lowercase form
  starts with "m" to "Male", one that starts with "f" to "Female", returns any other string
  unchanged, and maps every other value to "Other". The doctor portal maps the strings "0"
  and "1" to "Male" and "Female", a string whose lowercase, trimmed form starts with "m" or
  "f" to "Male" or "Female", and every other value to "Other".
\<close>

theorem formatGender_cases:
  "formatGender JNull = ''N/A'' \<and> formatGender JUndefined = ''N/A'' \<and>
   formatGender (code 0) = ''Male'' \<and> formatGender (code 1) = ''Female'' \<and>
   (startsWith (toLowerCase s) ''m'' \<longrightarrow> formatGender (JStr s) = ''Male'') \<and>
   (startsWith (toLowerCase s) ''f'' \<longrightarrow> formatGender (JStr s) = ''Female'') \<and>
   (\<not> startsWith (toLowerCase s) ''m'' \<and> \<not> startsWith (toLowerCase s) ''f'' \<longrightarrow>
      formatGender (JStr s) = s) \<and>
   (v \<notin> {JNull, JUndefined, code 0, code 1} \<and> (\<forall>t. v \<noteq> JStr t) \<longrightarrow> formatGender v = ''Other'') \<and>
   formatGender_doctor JNull = ''N/A'' \<and> formatGender_doctor JUndefined = ''N/A'' \<and>
   formatGender_doctor (code 0) = ''Male'' \<and> formatGender_doctor (code 1) = ''Female'' \<and>
   formatGender_doctor (JStr ''0'') = ''Male'' \<and> formatGender_doctor (JStr ''1'') = ''Female'' \<and>
   (startsWith (trim (toLowerCase s)) ''m'' \<longrightarrow> formatGender_doctor (JStr s) = ''Male'') \<and>
   (startsWith (trim (toLowerCase s)) ''f'' \<longrightarrow> formatGender_doctor (JStr s) = ''Female'') \<and>
   (s \<notin> {''0'', ''1''} \<and> \<not> startsWith (trim (toLowerCase s)) ''m'' \<and>
    \<not> startsWith (trim (toLowerCase s)) ''f'' \<longrightarrow> formatGender_doctor (JStr s) = ''Other'') \<and>
   (v \<notin> {JNull, JUndefined, code 0, code 1} \<and> (\<forall>t. v \<noteq> JStr t) \<longrightarrow>
      formatGender_doctor v = ''Other'')"
  by (auto simp: formatGender_def formatGender_doctor_def strict_eq_def code_def startsWith_def
      trim_lower_digits split: jsval.splits)

theorem formatGender_cases_witness:
  "formatGender (JStr ''Male'') = ''Male'' \<and> formatGender (JStr ''FEMALE'') = ''Female'' \<and>
   formatGender (JStr ''xyz'') = ''xyz'' \<and> formatGender (JBool True) = ''Other'' \<and>
   formatGender_doctor (JStr '' male'') = ''Male'' \<and> formatGender_doctor (JStr ''xyz'') = ''Other'' \<and>
   formatGender_doctor (JBool True) = ''Other''"
  using formatGender_cases [of "''Male''" "JBool True"] formatGender_cases [of "''FEMALE''" "JBool True"]
    formatGender_cases [of "''xyz''" "JBool True"] formatGender_cases [of "'' male''" "JBool True"]
    gender_examples
  by (simp add: code_def)

section \<open>Properties of the disease prediction grid\<close>

text \<open>
  C8, as stated, fails on the grid: with all four slots present and insufficient, the grid
  renders no card at all.
\<close>

theorem grid_counterexample:
  "DiseasePredictionGrid
     \<lparr>obesity = Some insufficient_slot, diabetes = Some insufficient_slot,
      hypertension = Some insufficient_slot, liver = Some insufficient_slot\<rparr> = Inr []"
  by (simp add: DiseasePredictionGrid_def grid_entry_def then_entry_def insufficient_slot_def)

text \<open>
  C8, amended. When the four disease slots are present in the result envelope, the grid
  renders without an error, in the order obesity, diabetes, liver, hypertension, one card
  (title and label of the prediction) for each slot whose prediction is not -1, and no card
  for a slot whose prediction is -1.
\<close>

theorem grid_drops_insufficient:
  assumes "obesity ds = Some ob" and "diabetes ds = Some di"
    and "liver ds = Some li" and "hypertension ds = Some hy"
  shows "\<exists>cards. DiseasePredictionGrid ds = Inr cards \<and>
     map (\<lambda>c. (title c, label c)) cards =
       map (\<lambda>(t, lab, e). (t, lab (prediction e)))
         (filter (\<lambda>(t, lab, e). prediction e \<noteq> code (- 1))
            [(''Obesity Screening'', obesityLabel, ob), (''Diabetes Analysis'', diabetesLabel, di),
             (''Liver Pathology'', liverLabel, li), (''Hypertension / Cardio'', hypertensionLabel, hy)])"
  using assms
  by (auto simp: DiseasePredictionGrid_def grid_entry_def then_entry_def)

theorem grid_drops_insufficient_witness:
  "\<exists>cards. DiseasePredictionGrid
       \<lparr>obesity = Some (insufficient_slot\<lparr>prediction := code 1\<rparr>), diabetes = Some insufficient_slot,
        hypertension = Some (insufficient_slot\<lparr>prediction := code 0\<rparr>),
        liver = Some insufficient_slot\<rparr> = Inr cards \<and>
     map (\<lambda>c. (title c, label c)) cards =
       [(''Obesity Screening'', ''Obese''), (''Hypertension / Cardio'', ''Low Cardiovascular Risk'')]"
  using grid_drops_insufficient [of
      "\<lparr>obesity = Some (insufficient_slot\<lparr>prediction := code 1\<rparr>), diabetes = Some insufficient_slot,
        hypertension = Some (insufficient_slot\<lparr>prediction := code 0\<rparr>),
        liver = Some insufficient_slot\<rparr>"
      "insufficient_slot\<lparr>prediction := code 1\<rparr>" insufficient_slot insufficient_slot
      "insufficient_slot\<lparr>prediction := code 0\<rparr>"]
  by (simp add: insufficient_slot_def obesityLabel_def hypertensionLabel_def)

section \<open>Properties of the upload error handling\<close>



section \<open>Properties of the paginated history\<close>

text \<open>
  C9. A history request for page \<open>p\<close> with limit \<open>l\<close> is answered with the fields \<open>data\<close>,
  \<open>page\<close>, \<open>limit\<close>, \<open>total_pages\<close>, \<open>total_records\<close>, \<open>has_next\<close> and \<open>has_prev\<close>, which
  the portals copy into their history and pagination state; page 2 with limit 10 over 25
  records carries 10 records, 3 pages in total, a next and a previous page.
\<close>

theorem history_pagination:
  assumes "1 \<le> p" and "1 \<le> l"
  shows "\<exists>r xs. paginate recs p l = Some r \<and> data r = Some xs \<and>
      page r = p \<and> limit r = l \<and> total_records r = length recs \<and> length xs \<le> l \<and>
      (has_next r \<longleftrightarrow> p < total_pages r) \<and> (has_prev r \<longleftrightarrow> 1 < p) \<and>
      history (fetchHistory (paginate recs) p l st) = Some xs \<and>
      pagination (fetchHistory (paginate recs) p l st) =
        \<lparr>page = p, limit = l, total_pages = total_pages r, total_records = length recs,
         has_next = has_next r, has_prev = has_prev r\<rparr> \<and>
      (q \<noteq> [] \<and> page (pagination dst) = p \<and> limit (pagination dst) = l \<longrightarrow>
         history (fetchPatientHistory (\<lambda>q. paginate recs) q dst) = Some xs \<and>
         pagination (fetchPatientHistory (\<lambda>q. paginate recs) q dst) =
           \<lparr>page = p, limit = l, total_pages = total_pages r, total_records = length recs,
            has_next = has_next r, has_prev = has_prev r\<rparr>) \<and>
      (length recs = 25 \<and> p = 2 \<and> l = 10 \<longrightarrow>
         length xs = 10 \<and> total_pages r = 3 \<and> has_next r \<and> has_prev r)"
  using assms by (auto simp: paginate_def fetchHistory_def fetchPatientHistory_def Let_def)

theorem history_pagination_witness:
  "\<exists>r. paginate [1 ..< 26] 2 10 = Some r \<and> data r = Some [11 ..< 21] \<and> total_pages r = 3 \<and>
      total_records r = 25 \<and> has_next r \<and> has_prev r \<and>
      history (fetchHistory (paginate [1 ..< 26]) 2 10
        \<lparr>history = None,
         pagination = \<lparr>page = 1, limit = 10, total_pages = 1, total_records = 0,
                        has_next = False, has_prev = False\<rparr>,
         history_loading = False\<rparr>) = Some [11 ..< 21]"
  using history_pagination [of 2 10 "[1 ..< 26]"
      "\<lparr>history = None,
        pagination = \<lparr>page = 1, limit = 10, total_pages = 1, total_records = 0,
                       has_next = False, has_prev = False\<rparr>,
        history_loading = False\<rparr>" "[]"]
  by (auto simp: paginate_def Let_def)

section \<open>Properties of the orchestrator\<close>

lemma all_present_None: "all_present (project rec fs) = None \<longleftrightarrow> (\<exists>f \<in> set fs. rec f = None)"
proof (induction fs)
  case Nil
  show ?case by (simp add: project_def)
next
  case (Cons a fs)
  then show ?case by (cases "rec a") (auto simp: project_def)
qed

text \<open>
  C1. For each of the four diseases, when a feature of the disease's required list is
  \<open>null\<close> in the extracted record, the pipeline emits for that disease exactly the envelope
  with prediction -1, no confidence, no future risk and no features used, whatever the
  other diseases' features are.
\<close>

theorem insufficient_features:
  assumes "f \<in> set (req d)" and "rec f = None"
  shows "predict_disease req score rec d = insufficient \<and>
         map_of (orchestrate req score rec) d = Some insufficient"
proof -
  have "all_present (project rec (req d)) = None"
    using assms all_present_None by blast
  then have "predict_disease req score rec d = insufficient"
    by (simp add: predict_disease_def)
  moreover have "map_of (orchestrate req score rec) d = Some (predict_disease req score rec d)"
    by (cases d) (simp_all add: orchestrate_def)
  ultimately show ?thesis by simp
qed

theorem insufficient_features_witness:
  "map_of (orchestrate
      (\<lambda>d. if d = Hypertension then [''age'', ''systolic'', ''diastolic''] else [''age'', ''gender''])
      (\<lambda>d fv. Inr (1, 87, 3 / 10))
      ((\<lambda>_. None)(''age'' \<mapsto> 40, ''systolic'' \<mapsto> 150, ''diastolic'' \<mapsto> 95))) Obesity
     = Some insufficient \<and>
   map_of (orchestrate
      (\<lambda>d. if d = Hypertension then [''age'', ''systolic'', ''diastolic''] else [''age'', ''gender''])
      (\<lambda>d fv. Inr (1, 87, 3 / 10))
      ((\<lambda>_. None)(''age'' \<mapsto> 40, ''systolic'' \<mapsto> 150, ''diastolic'' \<mapsto> 95))) Hypertension
     = Some \<lparr>prediction = 1, confidence = Some (87 / 100), future_risk = Some (3 / 10),
             features_used = [(''age'', 40), (''systolic'', 150), (''diastolic'', 95)]\<rparr>"
  using insufficient_features [of "''gender''"
      "\<lambda>d. if d = Hypertension then [''age'', ''systolic'', ''diastolic''] else [''age'', ''gender'']"
      Obesity "(\<lambda>_. None)(''age'' \<mapsto> 40, ''systolic'' \<mapsto> 150, ''diastolic'' \<mapsto> 95)"
      "\<lambda>d fv. Inr (1, 87, 3 / 10)"]
  by (simp add: orchestrate_def predict_disease_def project_def probability_def)

section \<open>Properties of the derived body mass index\<close>

lemma bmi_example: "round1 (70 / (170 / 100)\<^sup>2) = 242 / 10"
  by code_simp

lemma round1_close: "\<bar>round1 x - x\<bar> \<le> 1 / 20"
proof -
  have "\<bar>of_int (round (x * 10)) - x * 10\<bar> \<le> 1 / 2"
    by (rule of_int_round_abs_le)
  then show ?thesis
    by (simp add: round1_def field_simps abs_if split: if_splits)
qed

text \<open>
  C6. When a document gives a positive height \<open>h\<close> in centimetres and a weight \<open>w\<close> in
  kilograms and no body mass index, the extractor outputs \<open>w / (h/100)^2\<close> rounded to
  one decimal place (a multiple of 0.1 at most 0.05 away); for \<open>h = 170\<close> and \<open>w = 70\<close> the
  output is 24.2.
\<close>

theorem bmi_derived:
  assumes "rec ''bmi'' = None" and "rec ''height_cm'' = Some h" and "rec ''weight_kg'' = Some w"
    and "0 < h"
  shows "\<exists>b. derive_bmi rec = Some b \<and> b = round1 (w / (h / 100)\<^sup>2) \<and>
           (\<exists>k::int. b * 10 = of_int k) \<and> \<bar>b - w / (h / 100)\<^sup>2\<bar> \<le> 1 / 20 \<and>
           (h = 170 \<and> w = 70 \<longrightarrow> b = 242 / 10)"
proof -
  let ?x = "w / (h / 100)\<^sup>2"
  have d: "derive_bmi rec = Some (round1 ?x)"
    using assms by (simp add: derive_bmi_def)
  have k: "\<exists>k::int. round1 ?x * 10 = of_int k"
    by (simp add: round1_def)
  have c: "\<bar>round1 ?x - ?x\<bar> \<le> 1 / 20"
    by (rule round1_close)
  have e: "round1 ?x = 242 / 10" if "h = 170" and "w = 70"
    unfolding that by (rule bmi_example)
  show ?thesis
    using d k c e by blast
qed

theorem bmi_derived_witness:
  "derive_bmi ((\<lambda>_. None)(''height_cm'' \<mapsto> 170, ''weight_kg'' \<mapsto> 70)) = Some (242 / 10)"
  using bmi_derived [of "(\<lambda>_. None)(''height_cm'' \<mapsto> 170, ''weight_kg'' \<mapsto> 70)" 170 70]
  by simp

end
